theory Spec2Isabelle
  imports Complex_Main
begin

section \<open>Numbers\<close>

text \<open>
  The TypeScript type \<^verbatim>\<open>number\<close>. Finite values are taken as real numbers (rounding of
  IEEE doubles is not modelled); \<open>NaN\<close> is kept, because \<^verbatim>\<open>parseFloat\<close> of an
  empty text field yields it and every comparison with it is false.
\<close>

datatype number = NaN | Num real

fun num_add :: "number \<Rightarrow> number \<Rightarrow> number" where
  "num_add (Num a) (Num b) = Num (a + b)"
| "num_add _ _ = NaN"

fun num_mul :: "number \<Rightarrow> number \<Rightarrow> number" where
  "num_mul (Num a) (Num b) = Num (a * b)"
| "num_mul _ _ = NaN"

text \<open>\<^verbatim>\<open>Math.min(a, b)\<close>: \<open>NaN\<close> as soon as one argument is.\<close>

fun Math_min :: "number \<Rightarrow> number \<Rightarrow> number" where
  "Math_min (Num a) (Num b) = Num (min a b)"
| "Math_min _ _ = NaN"

text \<open>\<^verbatim>\<open>a <= b\<close>: false when an operand is \<open>NaN\<close>.\<close>

fun num_le :: "number \<Rightarrow> number \<Rightarrow> bool" where
  "num_le (Num a) (Num b) = (a \<le> b)"
| "num_le _ _ = False"

section \<open>Types\<close>

text \<open>
  The interfaces of the source, with the fields that the functions below read or that
  the properties speak of; names, contact data, logos and images are left out.
\<close>

record FeeStructure =
  flat :: real
  percentage :: real
  maxFee :: real

record Employer =
  employer_id :: string
  payrollDay :: nat
  advanceCap :: real
  feeStructure :: FeeStructure

datatype PaymentMethod = instant | eft | ewallet

record User =
  user_id :: string
  employerId :: string
  hourlyRate :: real
  biometricEnabled :: bool
  preferredPaymentMethod :: PaymentMethod

datatype TransactionType = advance_tx | repayment | voucher_tx

datatype TransactionStatus = pending | approved | completed | failed

record VoucherPurchase =
  voucherId :: string
  code :: string
  expiryDate :: string

record Transaction =
  tx_id :: string
  tx_userId :: string
  tx_amount :: real
  tx_fee :: real
  tx_type :: TransactionType
  tx_status :: TransactionStatus
  tx_paymentMethod :: string
  voucherDetails :: "VoucherPurchase option"

datatype Category = mobile | utility | retail

record Voucher =
  voucher_id :: string
  category :: Category
  provider :: string
  voucher_name :: string
  price :: real
  discount :: real
  stock :: int

datatype NotificationType = success | error | info | warning

text \<open>
  The message of a notification is a template literal in the source; the model keeps
  the template and the values put into it instead of the rendered text:
  \<^verbatim>\<open>`Advance of R${amt} approved! Fee: R${fee.toFixed(2)}`\<close> is \<open>AdvanceApproved amt fee\<close>,
  \<^verbatim>\<open>`${voucher.name} purchased successfully! ...`\<close> is \<open>VoucherPurchased name\<close>.
\<close>

datatype Message =
    AdvanceApproved number number
  | VoucherPurchased string
  | Literal string

record Notification =
  notif_id :: string
  notif_type :: NotificationType
  message :: Message
  timestamp :: nat
  read :: bool

section \<open>Fee computation\<close>

text \<open>
  \<^verbatim>\<open>calculateFee\<close> of the advance form. The employer is the result of
  \<^verbatim>\<open>mockEmployers.find\<close>, absent (\<open>None\<close>) when no employer has the user's
  \<^verbatim>\<open>employerId\<close>.
\<close>

definition calculateFee :: "Employer option \<Rightarrow> number \<Rightarrow> number" where
  "calculateFee employer amt =
     (case employer of
        None \<Rightarrow> Num 0
      | Some e \<Rightarrow>
          (let calculated = num_add (Num (flat (feeStructure e)))
                              (num_mul amt (Num (percentage (feeStructure e))))
           in Math_min calculated (Num (maxFee (feeStructure e)))))"

section \<open>Mock data\<close>

definition techCorp :: Employer where
  "techCorp = \<lparr>employer_id = ''1'', payrollDay = 25, advanceCap = 0.25,
     feeStructure = \<lparr>flat = 25, percentage = 0.01, maxFee = 60\<rparr>\<rparr>"

definition retailHub :: Employer where
  "retailHub = \<lparr>employer_id = ''2'', payrollDay = 30, advanceCap = 0.30,
     feeStructure = \<lparr>flat = 20, percentage = 0.015, maxFee = 50\<rparr>\<rparr>"

definition healthCarePlus :: Employer where
  "healthCarePlus = \<lparr>employer_id = ''3'', payrollDay = 15, advanceCap = 0.20,
     feeStructure = \<lparr>flat = 30, percentage = 0.005, maxFee = 70\<rparr>\<rparr>"

definition mockEmployers :: "Employer list" where
  "mockEmployers = [techCorp, retailHub, healthCarePlus]"

definition thabo :: User where
  "thabo = \<lparr>user_id = ''1'', employerId = ''1'', hourlyRate = 150, biometricEnabled = True,
     preferredPaymentMethod = instant\<rparr>"

definition sarah :: User where
  "sarah = \<lparr>user_id = ''2'', employerId = ''2'', hourlyRate = 120, biometricEnabled = False,
     preferredPaymentMethod = eft\<rparr>"

definition mockUsers :: "User list" where
  "mockUsers = [thabo, sarah]"

text \<open>
  \<^verbatim>\<open>mockEmployers.find(e => e.id === user?.employerId)\<close>, the employer that
  \<^verbatim>\<open>Dashboard\<close> and \<^verbatim>\<open>AdvanceRequest\<close> work with. The functions below take its
  result as an argument.
\<close>

definition find_employer :: "Employer list \<Rightarrow> User option \<Rightarrow> Employer option" where
  "find_employer employers user =
     List.find (\<lambda>e. Some (employer_id e) = map_option employerId user) employers"

section \<open>Earned wages (Dashboard)\<close>

text \<open>
  A \<^verbatim>\<open>Date\<close> as its methods show it: the epoch milliseconds and the calendar fields
  in local time. How the two are related is the runtime's business (time zone, clock
  changes), so the constructor \<^verbatim>\<open>new Date(y, m, d)\<close> of the runtime is an argument
  of the function that calls it.
\<close>

record JSDate =
  getTime :: int
  getFullYear :: int
  getMonth :: nat
  getDate :: nat

definition calculateEarnedToDate ::
  "(int \<Rightarrow> nat \<Rightarrow> nat \<Rightarrow> JSDate) \<Rightarrow> User option \<Rightarrow> JSDate \<Rightarrow> real" where
  "calculateEarnedToDate new_Date user today =
     (case user of
        None \<Rightarrow> 0
      | Some u \<Rightarrow>
          (let startOfMonth = new_Date (getFullYear today) (getMonth today) 1;
               workingDays = \<lfloor>real_of_int (getTime today - getTime startOfMonth)
                                / (1000 * 60 * 60 * 24)\<rfloor>
           in real_of_int workingDays * 8 * hourlyRate u))"

text \<open>
  \<^verbatim>\<open>earned * (employer?.advanceCap || 0.25)\<close>: the default is taken when there is no
  employer and also when the cap is \<open>0\<close>, which is falsy.
\<close>

definition available :: "Employer option \<Rightarrow> real \<Rightarrow> real" where
  "available employer earned =
     earned * (case employer of
                 None \<Rightarrow> 0.25
               | Some e \<Rightarrow> if advanceCap e = 0 then 0.25 else advanceCap e)"

section \<open>Notifications and timers\<close>

text \<open>\<^verbatim>\<open>Date.now().toString()\<close>: the decimal digits of the millisecond count.\<close>

definition digit :: "nat \<Rightarrow> char" where
  "digit d = char_of (48 + d)"

fun toString :: "nat \<Rightarrow> string" where
  "toString n = (if n < 10 then [digit n] else toString (n div 10) @ [digit (n mod 10)])"

declare toString.simps [simp del]

text \<open>Reading a decimal string back, to tell ids apart.\<close>

definition digit_value :: "char \<Rightarrow> nat" where
  "digit_value c = of_char c - 48"

definition decimal_value :: "string \<Rightarrow> nat" where
  "decimal_value s = foldl (\<lambda>acc c. acc * 10 + digit_value c) 0 s"

text \<open>
  A pending \<^verbatim>\<open>setTimeout\<close>: its due time and what its callback does. The callback of
  \<^verbatim>\<open>addNotification\<close> removes the notification with the captured id; the callback of
  \<^verbatim>\<open>handleBiometric\<close> calls the \<^verbatim>\<open>onSuccess\<close> it captured, which in turn holds
  the text of the amount field at the time of the click.
\<close>

datatype TimerAction = RemoveNotification string | ScanDone "number option"

text \<open>
  The state of the session: the clock (\<^verbatim>\<open>Date.now()\<close>, in ms), the notification list
  and the pending timers of \<^verbatim>\<open>App\<close>, the state of \<^verbatim>\<open>AdvanceRequest\<close>, the
  \<^verbatim>\<open>scanning\<close> flag of the modal it shows, and the module-level voucher and
  transaction arrays. The text of the amount field is \<open>None\<close>
  when it is the empty string and \<open>Some v\<close> when it is a text that \<^verbatim>\<open>parseFloat\<close>
  reads as \<open>v\<close>.
\<close>

record App =
  clock :: nat
  notifications :: "Notification list"
  timers :: "(nat \<times> TimerAction) list"
  amount :: "number option"
  paymentMethod :: PaymentMethod
  showBiometric :: bool
  scanning :: bool
  vouchers :: "Voucher list"
  transactions :: "Transaction list"

definition parseFloat :: "number option \<Rightarrow> number" where
  "parseFloat txt = (case txt of None \<Rightarrow> NaN | Some v \<Rightarrow> v)"

definition addNotification :: "NotificationType \<Rightarrow> Message \<Rightarrow> App \<Rightarrow> App" where
  "addNotification ty msg st =
     (let notif = \<lparr>notif_id = toString (clock st), notif_type = ty, message = msg,
                    timestamp = clock st, read = False\<rparr>
      in st\<lparr>notifications := notifications st @ [notif],
             timers := timers st @ [(clock st + 5000, RemoveNotification (notif_id notif))]\<rparr>)"

definition removeNotification :: "string \<Rightarrow> App \<Rightarrow> App" where
  "removeNotification i st =
     st\<lparr>notifications := filter (\<lambda>n. notif_id n \<noteq> i) (notifications st)\<rparr>"

section \<open>Advance request\<close>

text \<open>
  \<^verbatim>\<open>processAdvance\<close> reads the amount of the render it was created in, so the model
  passes that text explicitly: the current text when \<^verbatim>\<open>handleSubmit\<close> calls it, the
  captured one when the scan timer does.
\<close>

definition processAdvance :: "Employer option \<Rightarrow> number option \<Rightarrow> App \<Rightarrow> App" where
  "processAdvance employer txt st =
     (let amt = parseFloat txt;
          fee = calculateFee employer amt
      in (addNotification success (AdvanceApproved amt fee) st)\<lparr>amount := None\<rparr>)"

text \<open>
  \<^verbatim>\<open>setShowBiometric\<close>. The modal is rendered while \<open>showBiometric\<close> holds; it is
  mounted afresh, with \<open>scanning\<close> false, each time the flag turns true, and keeps
  its state only while the flag stays true.
\<close>

definition setShowBiometric :: "bool \<Rightarrow> App \<Rightarrow> App" where
  "setShowBiometric b st =
     st\<lparr>showBiometric := b, scanning := (b \<and> showBiometric st \<and> scanning st)\<rparr>"

definition handlePresetAmount :: "real \<Rightarrow> App \<Rightarrow> App" where
  "handlePresetAmount preset st = st\<lparr>amount := Some (Num preset)\<rparr>"

definition handleSubmit :: "User option \<Rightarrow> Employer option \<Rightarrow> App \<Rightarrow> App" where
  "handleSubmit user employer st =
     (if (case user of None \<Rightarrow> False | Some u \<Rightarrow> biometricEnabled u)
      then setShowBiometric True st
      else processAdvance employer (amount st) st)"

text \<open>\<^verbatim>\<open>disabled={!amount || parseFloat(amount) <= 0}\<close> of the submit button.\<close>

definition submitDisabled :: "App \<Rightarrow> bool" where
  "submitDisabled st = (amount st = None \<or> num_le (parseFloat (amount st)) (Num 0))"

text \<open>The fee line of the preview, rendered when the amount text is not empty.\<close>

definition feePreview :: "Employer option \<Rightarrow> App \<Rightarrow> number option" where
  "feePreview employer st =
     (if amount st = None then None else Some (calculateFee employer (parseFloat (amount st))))"

text \<open>
  \<^verbatim>\<open>handleBiometric\<close> of the modal: the flag is raised and the timer is started whose
  callback lowers the flag and calls \<^verbatim>\<open>onSuccess\<close>, whatever the scan.
\<close>

definition handleBiometric :: "App \<Rightarrow> App" where
  "handleBiometric st =
     st\<lparr>scanning := True, timers := timers st @ [(clock st + 2000, ScanDone (amount st))]\<rparr>"

text \<open>The two callbacks that \<^verbatim>\<open>AdvanceRequest\<close> hands to the modal.\<close>

definition onSuccess :: "Employer option \<Rightarrow> number option \<Rightarrow> App \<Rightarrow> App" where
  "onSuccess employer txt st = processAdvance employer txt (setShowBiometric False st)"

definition onCancel :: "App \<Rightarrow> App" where
  "onCancel st = setShowBiometric False st"

section \<open>Voucher marketplace\<close>

definition handlePurchase :: "Voucher \<Rightarrow> App \<Rightarrow> App" where
  "handlePurchase voucher st = addNotification success (VoucherPurchased (voucher_name voucher)) st"

section \<open>Timers firing\<close>

text \<open>
  The callback of a timer. That of the scan is
  \<^verbatim>\<open>() => { setScanning(false); onSuccess(); }\<close>.
\<close>

definition fire :: "Employer option \<Rightarrow> TimerAction \<Rightarrow> App \<Rightarrow> App" where
  "fire employer a st =
     (case a of
        RemoveNotification i \<Rightarrow> removeNotification i st
      | ScanDone txt \<Rightarrow> onSuccess employer txt (st\<lparr>scanning := False\<rparr>))"

text \<open>The timer to run next: the least due time, the earliest scheduled among equals.\<close>

fun earliest :: "(nat \<times> 'a) list \<Rightarrow> (nat \<times> 'a) option" where
  "earliest [] = None"
| "earliest (x # xs) =
     (case earliest xs of
        None \<Rightarrow> Some x
      | Some y \<Rightarrow> if fst x \<le> fst y then Some x else Some y)"

fun weight :: "(nat \<times> TimerAction) list \<Rightarrow> nat" where
  "weight [] = 0"
| "weight ((d, RemoveNotification i) # ts) = 1 + weight ts"
| "weight ((d, ScanDone txt) # ts) = 2 + weight ts"

text \<open>
  Time passes until \<open>t\<close>: every timer due by then runs, in order, at its due time; a
  callback may schedule new timers, which run too when they are due by \<open>t\<close>.
\<close>

function advance :: "Employer option \<Rightarrow> nat \<Rightarrow> App \<Rightarrow> App" where
  "advance employer t st =
     (case earliest (timers st) of
        None \<Rightarrow> st\<lparr>clock := max (clock st) t\<rparr>
      | Some (d, a) \<Rightarrow>
          if d \<le> t
          then advance employer t
                 (fire employer a (st\<lparr>clock := max (clock st) d,
                                        timers := remove1 (d, a) (timers st)\<rparr>))
          else st\<lparr>clock := max (clock st) t\<rparr>)"
  by pat_completeness auto
termination
proof (relation "measure (\<lambda>(employer, t, st). weight (timers st))")
  show "wf (measure (\<lambda>(employer, t, st). weight (timers st)))"
    by simp
next
  fix employer :: "Employer option" and t :: nat and st :: App and x d a
  assume e: "earliest (timers st) = Some x" and x: "(d, a) = x" and "d \<le> t"
  have mem: "earliest ts = Some y \<Longrightarrow> y \<in> set ts" for ts :: "(nat \<times> TimerAction) list" and y
    by (induction ts arbitrary: y) (auto split: option.splits if_splits)
  have app: "weight (ts @ us) = weight ts + weight us" for ts us
    by (induction ts rule: weight.induct) auto
  have rem: "(d, RemoveNotification i) \<in> set ts
      \<Longrightarrow> weight (remove1 (d, RemoveNotification i) ts) + 1 = weight ts" for i ts
    by (induction ts rule: weight.induct) auto
  have scan: "(d, ScanDone c) \<in> set ts
      \<Longrightarrow> weight (remove1 (d, ScanDone c) ts) + 2 = weight ts" for c ts
    by (induction ts rule: weight.induct) auto
  from e x have m: "(d, a) \<in> set (timers st)"
    using mem by blast
  show "((employer, t, fire employer a (st\<lparr>clock := max (clock st) d,
            timers := remove1 (d, a) (timers st)\<rparr>)), (employer, t, st))
        \<in> measure (\<lambda>(employer, t, st). weight (timers st))"
  proof (cases a)
    case (RemoveNotification i)
    with m rem [of i "timers st"] show ?thesis
      by (simp add: fire_def removeNotification_def)
  next
    case (ScanDone captured)
    with m scan [of captured "timers st"] show ?thesis
      by (simp add: fire_def onSuccess_def setShowBiometric_def processAdvance_def
          addNotification_def app Let_def)
  qed
qed

declare advance.simps [simp del]

section \<open>Events\<close>

text \<open>
  What can happen in a session: the user edits the form, presses a button that is
  rendered and enabled, another part of the page (login, logout) pushes a notification,
  the user clicks a toast, or time passes.
\<close>

datatype Event =
    SetAmount "number option"
  | Preset real
  | SelectMethod PaymentMethod
  | ClickSubmit
  | ClickScan
  | ClickCancel
  | BuyNow Voucher
  | Notify NotificationType string
  | ClickToast string
  | Wait nat

definition step :: "User option \<Rightarrow> Employer option \<Rightarrow> Event \<Rightarrow> App \<Rightarrow> App" where
  "step user employer ev st =
     (case ev of
        SetAmount txt \<Rightarrow> st\<lparr>amount := txt\<rparr>
      | Preset p \<Rightarrow> handlePresetAmount p st
      | SelectMethod m \<Rightarrow> st\<lparr>paymentMethod := m\<rparr>
      | ClickSubmit \<Rightarrow> if submitDisabled st then st else handleSubmit user employer st
      | ClickScan \<Rightarrow> if showBiometric st \<and> \<not> scanning st then handleBiometric st else st
      | ClickCancel \<Rightarrow> if showBiometric st then onCancel st else st
      | BuyNow v \<Rightarrow> handlePurchase v st
      | Notify ty msg \<Rightarrow> addNotification ty (Literal msg) st
      | ClickToast i \<Rightarrow> removeNotification i st
      | Wait ms \<Rightarrow> advance employer (clock st + ms) st)"

fun run :: "User option \<Rightarrow> Employer option \<Rightarrow> Event list \<Rightarrow> App \<Rightarrow> App" where
  "run user employer [] st = st"
| "run user employer (ev # evs) st = run user employer evs (step user employer ev st)"

definition initial :: "nat \<Rightarrow> Voucher list \<Rightarrow> Transaction list \<Rightarrow> App" where
  "initial now vs txs =
     \<lparr>clock = now, notifications = [], timers = [], amount = None, paymentMethod = instant,
      showBiometric = False, scanning = False, vouchers = vs, transactions = txs\<rparr>"

section \<open>Sample data\<close>

text \<open>An employer whose fee cap lies below its flat fee.\<close>

definition capBelowFlat :: Employer where
  "capBelowFlat = \<lparr>employer_id = ''9'', payrollDay = 1, advanceCap = 0.25,
     feeStructure = \<lparr>flat = 25, percentage = 0.01, maxFee = 10\<rparr>\<rparr>"

text \<open>A voucher that is out of stock, and one with a single item left.\<close>

definition soldOut :: Voucher where
  "soldOut = \<lparr>voucher_id = ''9'', category = mobile, provider = ''Vodacom'',
     voucher_name = ''R50 Airtime'', price = 48, discount = 4, stock = 0\<rparr>"

definition lastOne :: Voucher where
  "lastOne = \<lparr>voucher_id = ''10'', category = mobile, provider = ''Vodacom'',
     voucher_name = ''1GB Data Bundle'', price = 48, discount = 4, stock = 1\<rparr>"

text \<open>
  \<^verbatim>\<open>new Date(2024, 2, d)\<close>, local midnight on day \<open>d\<close> of March 2024, as two runtimes
  give it. In Johannesburg (UTC+2 all year) the first of March begins at
  2024-02-29T22:00Z and every day has 24 hours. In New York the first of March begins at
  2024-03-01T05:00Z and the clocks go forward on 10 March, a day of 23 hours.
\<close>

definition johannesburg :: "int \<Rightarrow> nat \<Rightarrow> nat \<Rightarrow> JSDate" where
  "johannesburg y m d =
     \<lparr>getTime = 1709244000000 + (int d - 1) * 86400000,
      getFullYear = y, getMonth = m, getDate = d\<rparr>"

definition newYork :: "int \<Rightarrow> nat \<Rightarrow> nat \<Rightarrow> JSDate" where
  "newYork y m d =
     \<lparr>getTime = 1709269200000 + (int d - 1) * 86400000 - (if 10 < d then 3600000 else 0),
      getFullYear = y, getMonth = m, getDate = d\<rparr>"

text \<open>Noon on 11 March 2024 in Johannesburg; midnight at the start of that day in New York.\<close>

definition eleventh :: JSDate where
  "eleventh = \<lparr>getTime = 1710151200000, getFullYear = 2024, getMonth = 2, getDate = 11\<rparr>"

definition eleventhNewYork :: JSDate where
  "eleventhNewYork = \<lparr>getTime = 1710129600000, getFullYear = 2024, getMonth = 2, getDate = 11\<rparr>"

section \<open>Invariants\<close>

text \<open>
  Every pending timer that removes a notification is due 5000 ms after the time its id
  spells out.
\<close>

fun timer_form :: "nat \<times> TimerAction \<Rightarrow> bool" where
  "timer_form (d, RemoveNotification i) = (5000 \<le> d \<and> i = toString (d - 5000))"
| "timer_form (d, ScanDone c) = True"

text \<open>Between events every pending timer is due in the future.\<close>

definition timers_ok :: "App \<Rightarrow> bool" where
  "timers_ok st = list_all (\<lambda>x. clock st < fst x \<and> timer_form x) (timers st)"

text \<open>While due timers run, the clock stands at the due time of the last one run.\<close>

definition timers_weak :: "App \<Rightarrow> bool" where
  "timers_weak st = list_all (\<lambda>x. clock st \<le> fst x \<and> timer_form x) (timers st)"

text \<open>
  The notification \<open>n\<close> pushed at time \<open>T\<close> is either shown with its removal pending, or
  its removal has run and no notification carries its id.
\<close>

definition expiry_inv :: "nat \<Rightarrow> Notification \<Rightarrow> App \<Rightarrow> bool" where
  "expiry_inv T n st =
     (T \<le> clock st \<and> notif_id n = toString T \<and>
      (n \<in> set (notifications st) \<and> (T + 5000, RemoveNotification (toString T)) \<in> set (timers st)
       \<or> list_all (\<lambda>m. notif_id m \<noteq> toString T) (notifications st) \<and> T + 5000 \<le> clock st))"









section \<open>Properties\<close>

lemmas handlers =
  step_def handleSubmit_def processAdvance_def addNotification_def handleBiometric_def
  onSuccess_def onCancel_def setShowBiometric_def submitDisabled_def parseFloat_def fire_def
  removeNotification_def handlePurchase_def handlePresetAmount_def feePreview_def

lemma mock_employers:
  "find_employer mockEmployers (Some thabo) = Some techCorp"
  "find_employer mockEmployers (Some sarah) = Some retailHub"
  "find_employer mockEmployers None = None"
  by (simp_all add: find_employer_def mockEmployers_def thabo_def sarah_def techCorp_def
      retailHub_def healthCarePlus_def)

subsection \<open>Fee computation\<close>

text \<open>
  C1 (amended). For every fee structure and every amount the fee is
  \<open>min (flat + amount * percentage) max\<close>. For an amount above zero and a percentage that
  is not negative the fee is at most \<open>max\<close>, and it is at least \<open>flat\<close> when
  \<open>flat \<le> max\<close>. For \<open>{flat: 25, percentage: 0.01, max: 60}\<close> and the amount 500 the
  fee is 30.
\<close>

theorem calculateFee_min_bounds:
  "calculateFee (Some e) (Num a) =
     Num (min (flat (feeStructure e) + a * percentage (feeStructure e)) (maxFee (feeStructure e)))
   \<and> (0 < a \<longrightarrow> 0 \<le> percentage (feeStructure e) \<longrightarrow>
        num_le (calculateFee (Some e) (Num a)) (Num (maxFee (feeStructure e)))
        \<and> (flat (feeStructure e) \<le> maxFee (feeStructure e) \<longrightarrow>
             num_le (Num (flat (feeStructure e))) (calculateFee (Some e) (Num a))))
   \<and> calculateFee (Some techCorp) (Num 500) = Num 30"
proof -
  have "0 < a \<Longrightarrow> 0 \<le> percentage (feeStructure e) \<Longrightarrow> 0 \<le> a * percentage (feeStructure e)"
    by simp
  moreover have "calculateFee (Some techCorp) (Num 500) = Num 30"
    by (simp add: calculateFee_def techCorp_def)
  ultimately show ?thesis
    by (auto simp: calculateFee_def)
qed

theorem calculateFee_min_bounds_witness:
  "(0::real) < 500 \<and> 0 \<le> percentage (feeStructure techCorp)
   \<and> flat (feeStructure techCorp) \<le> maxFee (feeStructure techCorp)
   \<and> calculateFee (Some techCorp) (Num 500) = Num 30
   \<and> num_le (calculateFee (Some techCorp) (Num 500)) (Num 60)
   \<and> num_le (Num 25) (calculateFee (Some techCorp) (Num 500))"
  using calculateFee_min_bounds [of techCorp 500] by (simp add: techCorp_def)

text \<open>
  C1 as stated fails where the cap is below the flat fee: with
  \<open>{flat: 25, percentage: 0.01, max: 10}\<close> the fee on 500 is 10, less than the flat fee.
\<close>

theorem calculateFee_below_flat:
  "(0::real) < 500 \<and> 0 \<le> percentage (feeStructure capBelowFlat)
   \<and> calculateFee (Some capBelowFlat) (Num 500) = Num 10
   \<and> \<not> num_le (Num (flat (feeStructure capBelowFlat))) (calculateFee (Some capBelowFlat) (Num 500))"
  by (simp add: calculateFee_def capBelowFlat_def)

text \<open>
  C4 (amended). For every fee structure and every amount that is zero or negative the
  fee computation still returns the number \<open>min (flat + amount * percentage) max\<close>, and
  the fee preview shows it. Such an amount is refused by the form instead: with it in
  the amount field, as with an empty field, the submit button is disabled, and pressing
  it changes nothing.
\<close>

theorem calculateFee_nonpositive:
  "a \<le> 0 \<Longrightarrow>
     calculateFee (Some e) (Num a) =
       Num (min (flat (feeStructure e) + a * percentage (feeStructure e)) (maxFee (feeStructure e)))
     \<and> (amount st = Some (Num a) \<longrightarrow>
          submitDisabled st
          \<and> step user (Some e) ClickSubmit st = st
          \<and> feePreview (Some e) st = Some (calculateFee (Some e) (Num a)))
     \<and> (amount st = None \<longrightarrow>
          submitDisabled st \<and> step user (Some e) ClickSubmit st = st)"
  by (simp add: calculateFee_def handlers)

theorem calculateFee_nonpositive_witness:
  "(0::real) \<le> 0
   \<and> calculateFee (Some techCorp) (Num 0) = Num 25
   \<and> submitDisabled ((initial 0 [] [])\<lparr>amount := Some (Num 0)\<rparr>)
   \<and> step (Some sarah) (Some techCorp) ClickSubmit ((initial 0 [] [])\<lparr>amount := Some (Num 0)\<rparr>)
       = (initial 0 [] [])\<lparr>amount := Some (Num 0)\<rparr>
   \<and> amount (initial 0 [] []) = None
   \<and> submitDisabled (initial 0 [] [])
   \<and> step (Some sarah) (Some techCorp) ClickSubmit (initial 0 [] []) = initial 0 [] []"
  using calculateFee_nonpositive [of 0 techCorp "(initial 0 [] [])\<lparr>amount := Some (Num 0)\<rparr>" "Some sarah"]
    calculateFee_nonpositive [of 0 techCorp "initial 0 [] []" "Some sarah"]
  by (simp add: techCorp_def initial_def)

text \<open>
  C4 as stated fails: on the amounts 0 and -100 the fee computation returns the fees
  25 and 24, not an error.
\<close>

theorem calculateFee_zero_and_negative:
  "calculateFee (Some techCorp) (Num 0) = Num 25
   \<and> calculateFee (Some techCorp) (Num (- 100)) = Num 24"
  by (simp add: calculateFee_def techCorp_def)

subsection \<open>Submitting an advance\<close>

text \<open>
  C2 (amended). Submission asks only for an amount above zero and consults no ceiling:
  with an empty field or an amount that is zero or negative the button does nothing; with
  any amount above zero, however large, a user without step-up authentication gets the
  advance approved
  at once for the full amount with the fee computed on it, and a user with step-up
  authentication gets the modal, whose success approves the full amount likewise.
\<close>

theorem submit_no_ceiling:
  "(amount st = None \<longrightarrow> step (Some u) employer ClickSubmit st = st)
   \<and> (amount st = Some (Num a) \<longrightarrow>
     (a \<le> 0 \<longrightarrow> step (Some u) employer ClickSubmit st = st)
     \<and> (0 < a \<longrightarrow> \<not> biometricEnabled u \<longrightarrow>
          notifications (step (Some u) employer ClickSubmit st) =
            notifications st @
              [\<lparr>notif_id = toString (clock st), notif_type = success,
                message = AdvanceApproved (Num a) (calculateFee employer (Num a)),
                timestamp = clock st, read = False\<rparr>])
     \<and> (0 < a \<longrightarrow> biometricEnabled u \<longrightarrow>
          step (Some u) employer ClickSubmit st = setShowBiometric True st
          \<and> notifications (onSuccess employer (amount st) (setShowBiometric True st)) =
            notifications st @
              [\<lparr>notif_id = toString (clock st), notif_type = success,
                message = AdvanceApproved (Num a) (calculateFee employer (Num a)),
                timestamp = clock st, read = False\<rparr>]))"
  by (simp add: handlers Let_def)

theorem submit_no_ceiling_witness:
  "amount ((initial 0 [] [])\<lparr>amount := Some (Num 5000)\<rparr>) = Some (Num 5000)
   \<and> (0::real) < 5000 \<and> \<not> biometricEnabled sarah \<and> biometricEnabled thabo
   \<and> map message (notifications (step (Some sarah) (Some retailHub) ClickSubmit
         ((initial 0 [] [])\<lparr>amount := Some (Num 5000)\<rparr>))) = [AdvanceApproved (Num 5000) (Num 50)]
   \<and> showBiometric (step (Some thabo) (Some techCorp) ClickSubmit
         ((initial 0 [] [])\<lparr>amount := Some (Num 5000)\<rparr>))
   \<and> step (Some sarah) (Some retailHub) ClickSubmit ((initial 0 [] [])\<lparr>amount := Some (Num 0)\<rparr>)
       = (initial 0 [] [])\<lparr>amount := Some (Num 0)\<rparr>
   \<and> amount (initial 0 [] []) = None
   \<and> step (Some sarah) (Some retailHub) ClickSubmit (initial 0 [] []) = initial 0 [] []"
  using submit_no_ceiling [where st = "initial 0 [] []" and u = sarah and employer = "Some retailHub"]
    submit_no_ceiling [where st = "(initial 0 [] [])\<lparr>amount := Some (Num 5000)\<rparr>" and a = 5000
      and u = sarah and employer = "Some retailHub"]
    submit_no_ceiling [where st = "(initial 0 [] [])\<lparr>amount := Some (Num 5000)\<rparr>" and a = 5000
      and u = thabo and employer = "Some techCorp"]
    submit_no_ceiling [where st = "(initial 0 [] [])\<lparr>amount := Some (Num 0)\<rparr>" and a = 0
      and u = sarah and employer = "Some retailHub"]
  by (simp add: handlers Let_def initial_def sarah_def thabo_def retailHub_def calculateFee_def)

text \<open>
  C2 as stated fails: with a ceiling of 3000 (hourly rate 150, ten days, cap 0.25) the
  request of 5000 is submitted, authenticated and approved for 5000 with the fee 60.
\<close>

theorem advance_above_ceiling_approved:
  "available (Some techCorp) (10 * 8 * hourlyRate thabo) = 3000
   \<and> map message (notifications (run (Some thabo) (Some techCorp)
        [SetAmount (Some (Num 5000)), ClickSubmit, ClickScan, Wait 2000] (initial 0 [] [])))
      = [AdvanceApproved (Num 5000) (Num 60)]
   \<and> map notif_type (notifications (run (Some thabo) (Some techCorp)
        [SetAmount (Some (Num 5000)), ClickSubmit, ClickScan, Wait 2000] (initial 0 [] [])))
      = [success]"
  by (simp add: handlers Let_def advance.simps initial_def thabo_def techCorp_def calculateFee_def
      available_def)

text \<open>
  C5. A submitted request of a user with \<open>biometricEnabled\<close> opens the step-up
  modal and approves nothing yet; a submitted request of a user without it is processed
  at once: the approval is notified, the modal stays closed and no scan is scheduled.
\<close>

theorem submit_biometric_gate:
  "\<not> submitDisabled st \<Longrightarrow>
     (biometricEnabled u \<longrightarrow>
        step (Some u) employer ClickSubmit st = setShowBiometric True st
        \<and> showBiometric (step (Some u) employer ClickSubmit st)
        \<and> notifications (step (Some u) employer ClickSubmit st) = notifications st)
     \<and> (\<not> biometricEnabled u \<longrightarrow>
        step (Some u) employer ClickSubmit st = processAdvance employer (amount st) st
        \<and> showBiometric (step (Some u) employer ClickSubmit st) = showBiometric st
        \<and> timers (step (Some u) employer ClickSubmit st) =
            timers st @ [(clock st + 5000, RemoveNotification (toString (clock st)))]
        \<and> notifications (step (Some u) employer ClickSubmit st) =
            notifications st @
              [\<lparr>notif_id = toString (clock st), notif_type = success,
                message = AdvanceApproved (parseFloat (amount st))
                            (calculateFee employer (parseFloat (amount st))),
                timestamp = clock st, read = False\<rparr>])"
  by (simp add: step_def handleSubmit_def setShowBiometric_def processAdvance_def
      addNotification_def Let_def)

theorem submit_biometric_gate_witness:
  "\<not> submitDisabled ((initial 0 [] [])\<lparr>amount := Some (Num 500)\<rparr>)
   \<and> biometricEnabled thabo \<and> \<not> biometricEnabled sarah
   \<and> showBiometric (step (Some thabo) (Some techCorp) ClickSubmit ((initial 0 [] [])\<lparr>amount := Some (Num 500)\<rparr>))
   \<and> notifications (step (Some thabo) (Some techCorp) ClickSubmit ((initial 0 [] [])\<lparr>amount := Some (Num 500)\<rparr>)) = []
   \<and> \<not> showBiometric (step (Some sarah) (Some retailHub) ClickSubmit ((initial 0 [] [])\<lparr>amount := Some (Num 500)\<rparr>))
   \<and> map message (notifications (step (Some sarah) (Some retailHub) ClickSubmit ((initial 0 [] [])\<lparr>amount := Some (Num 500)\<rparr>)))
       = [AdvanceApproved (Num 500) (Num 27.5)]"
  using submit_biometric_gate [of "(initial 0 [] [])\<lparr>amount := Some (Num 500)\<rparr>" thabo "Some techCorp"]
    submit_biometric_gate [of "(initial 0 [] [])\<lparr>amount := Some (Num 500)\<rparr>" sarah "Some retailHub"]
  by (simp add: handlers Let_def initial_def thabo_def sarah_def retailHub_def calculateFee_def)

subsection \<open>Buying a voucher\<close>

text \<open>
  C7 (amended). For every voucher, whatever its stock, a purchase notifies success and
  leaves the catalogue, the stock in it, and the transactions as they were; bought \<open>n\<close>
  times in a row it notifies success \<open>n\<close> times.
\<close>

theorem purchase_ignores_stock:
  "vouchers (handlePurchase v st) = vouchers st
   \<and> transactions (handlePurchase v st) = transactions st
   \<and> notifications (handlePurchase v st) =
       notifications st @
         [\<lparr>notif_id = toString (clock st), notif_type = success,
           message = VoucherPurchased (voucher_name v), timestamp = clock st, read = False\<rparr>]
   \<and> vouchers (run user employer (replicate n (BuyNow v)) st) = vouchers st
   \<and> transactions (run user employer (replicate n (BuyNow v)) st) = transactions st
   \<and> map notif_type (notifications (run user employer (replicate n (BuyNow v)) st)) =
       map notif_type (notifications st) @ replicate n success"
proof -
  have "vouchers (run user employer (replicate n (BuyNow v)) st) = vouchers st
    \<and> transactions (run user employer (replicate n (BuyNow v)) st) = transactions st
    \<and> map notif_type (notifications (run user employer (replicate n (BuyNow v)) st)) =
       map notif_type (notifications st) @ replicate n success"
  proof (induction n arbitrary: st)
    case 0
    show ?case by simp
  next
    case (Suc n)
    show ?case
      using Suc.IH [of "step user employer (BuyNow v) st"]
      by (simp add: step_def handlePurchase_def addNotification_def replicate_append_same Let_def)
  qed
  then show ?thesis
    by (simp add: handlePurchase_def addNotification_def Let_def)
qed

text \<open>
  C7 as stated fails: the purchase of a voucher with no stock succeeds, with no
  transaction made, and a voucher with one item left is bought twice with its stock
  still 1.
\<close>

theorem purchase_out_of_stock_succeeds:
  "stock soldOut = 0
   \<and> map notif_type (notifications (handlePurchase soldOut (initial 0 [soldOut] []))) = [success]
   \<and> vouchers (handlePurchase soldOut (initial 0 [soldOut] [])) = [soldOut]
   \<and> transactions (handlePurchase soldOut (initial 0 [soldOut] [])) = []
   \<and> stock lastOne = 1
   \<and> map notif_type (notifications (run None None [BuyNow lastOne, BuyNow lastOne] (initial 0 [lastOne] [])))
       = [success, success]
   \<and> map stock (vouchers (run None None [BuyNow lastOne, BuyNow lastOne] (initial 0 [lastOne] []))) = [1]"
  by (simp add: handlers initial_def soldOut_def lastOne_def Let_def)

subsection \<open>Earned wages\<close>

text \<open>
  The earned amount counts the whole periods of 24 hours since local midnight on the
  first of the month.
\<close>

lemma calculateEarnedToDate_periods:
  "calculateEarnedToDate new_Date (Some u) today =
     real_of_int ((getTime today - getTime (new_Date (getFullYear today) (getMonth today) 1))
                    div 86400000) * 8 * hourlyRate u"
proof -
  have "\<lfloor>real_of_int (getTime today - getTime (new_Date (getFullYear today) (getMonth today) 1))
          / (1000 * 60 * 60 * 24)\<rfloor>
      = (getTime today - getTime (new_Date (getFullYear today) (getMonth today) 1)) div 86400000"
    using floor_divide_of_int_eq
      [of "getTime today - getTime (new_Date (getFullYear today) (getMonth today) 1)" 86400000,
       where ?'a = real]
    by simp
  then show ?thesis
    by (simp add: calculateEarnedToDate_def Let_def)
qed

text \<open>
  Where every day of the month so far had 24 hours, that is the number of calendar days
  since the first of the month: on day \<open>d\<close>, at any time \<open>r\<close> of the day, the earned
  amount is \<open>(d - 1) * 8 * hourlyRate\<close>.
\<close>

lemma calculateEarnedToDate_days:
  assumes "getTime today - getTime (new_Date (getFullYear today) (getMonth today) 1)
             = (int (getDate today) - 1) * 86400000 + r"
    and "0 \<le> r" and "r < 86400000"
  shows "calculateEarnedToDate new_Date (Some u) today
          = real_of_int (int (getDate today) - 1) * 8 * hourlyRate u"
proof -
  have "((int (getDate today) - 1) * 86400000 + r) div 86400000 = int (getDate today) - 1"
    using assms(2,3) by simp
  with assms(1) show ?thesis
    by (simp add: calculateEarnedToDate_periods)
qed

text \<open>
  With a cap other than zero, and so for every employer of \<^verbatim>\<open>mockEmployers\<close>, the
  available amount is the earned amount times the cap.
\<close>

lemma available_cap:
  "advanceCap e \<noteq> 0 \<Longrightarrow> available (Some e) earned = earned * advanceCap e"
  by (simp add: available_def)

lemma available_mock:
  "e \<in> set mockEmployers \<Longrightarrow> available (Some e) earned = earned * advanceCap e"
  by (auto simp: mockEmployers_def techCorp_def retailHub_def healthCarePlus_def available_def)

lemma available_example:
  "calculateEarnedToDate johannesburg (Some thabo) eleventh = 12000
   \<and> available (Some techCorp) (calculateEarnedToDate johannesburg (Some thabo) eleventh) = 3000"
  using calculateEarnedToDate_days [of eleventh johannesburg 43200000 thabo]
  by (simp add: eleventh_def johannesburg_def thabo_def available_def techCorp_def)

text \<open>
  C3. The earned amount is the number of whole 24-hour periods since local midnight on
  the first of the month, times 8 times the hourly rate, and the ceiling is the earned
  amount times the cap of the employer. After a clock change in the month the periods
  fall short of the calendar days: in New York, at midnight at the start of 11 March
  2024, ten calendar days have elapsed and 239 hours, so that for the hourly rate 150 the
  code gives 9 * 8 * 150 = 10800 where the claim says 10 * 8 * 150 = 12000, and the
  ceiling 2700 instead of 3000.
\<close>

theorem earned_after_clock_change:
  "getDate eleventhNewYork = 11
   \<and> eleventhNewYork = newYork 2024 2 11
   \<and> getTime eleventhNewYork - getTime (newYork 2024 2 1) = 239 * (1000 * 60 * 60)
   \<and> calculateEarnedToDate newYork (Some thabo) eleventhNewYork = 10800
   \<and> calculateEarnedToDate newYork (Some thabo) eleventhNewYork
        \<noteq> real (getDate eleventhNewYork - 1) * 8 * hourlyRate thabo
   \<and> available (Some techCorp) (calculateEarnedToDate newYork (Some thabo) eleventhNewYork) = 2700"
  by (simp add: calculateEarnedToDate_periods eleventhNewYork_def newYork_def thabo_def
      available_def techCorp_def)

subsection \<open>Timers\<close>

lemma digit_value_digit: "d < 10 \<Longrightarrow> digit_value (digit d) = d"
  by (simp add: digit_value_def digit_def)

lemma decimal_value_toString: "decimal_value (toString n) = n"
proof (induction n rule: toString.induct)
  case (1 n)
  show ?case
  proof (cases "n < 10")
    case True
    then show ?thesis
      by (subst toString.simps) (simp add: decimal_value_def digit_value_digit)
  next
    case False
    with 1 have "decimal_value (toString (n div 10)) = n div 10"
      by simp
    with False show ?thesis
      by (subst toString.simps) (simp add: decimal_value_def digit_value_digit)
  qed
qed

lemma toString_eq_iff [simp]: "toString a = toString b \<longleftrightarrow> a = b"
  by (metis decimal_value_toString)

lemma earliest_None: "earliest ts = None \<longleftrightarrow> ts = []"
  by (induction ts) (auto split: option.splits)

lemma earliest_mem: "earliest ts = Some x \<Longrightarrow> x \<in> set ts"
  by (induction ts arbitrary: x) (auto split: option.splits if_splits)

lemma earliest_least: "earliest ts = Some x \<Longrightarrow> y \<in> set ts \<Longrightarrow> fst x \<le> fst y"
proof (induction ts arbitrary: x)
  case Nil
  then show ?case by simp
next
  case (Cons a ts)
  show ?case
  proof (cases "earliest ts")
    case None
    then have "ts = []"
      by (simp add: earliest_None)
    with Cons.prems show ?thesis
      by simp
  next
    case (Some z)
    have z: "y \<in> set ts \<Longrightarrow> fst z \<le> fst y"
      using Cons.IH [OF Some] by simp
    from Cons.prems Some z show ?thesis
      by (auto split: if_splits)
  qed
qed

lemma advance_rule_aux:
  "I st \<Longrightarrow>
   (\<And>s d a. I s \<Longrightarrow> earliest (timers s) = Some (d, a) \<Longrightarrow> d \<le> t \<Longrightarrow>
      I (fire employer a (s\<lparr>clock := max (clock s) d, timers := remove1 (d, a) (timers s)\<rparr>))) \<Longrightarrow>
   (\<And>s. I s \<Longrightarrow> \<forall>x \<in> set (timers s). t < fst x \<Longrightarrow> Q (s\<lparr>clock := max (clock s) t\<rparr>)) \<Longrightarrow>
   Q (advance employer t st)"
proof (induction employer t st rule: advance.induct)
  case (1 employer t st)
  note init = "1.prems"(1) and fire = "1.prems"(2) and stop = "1.prems"(3)
  show ?case
  proof (cases "earliest (timers st)")
    case None
    then have "timers st = []"
      by (simp add: earliest_None)
    with None stop [OF init] show ?thesis
      by (simp add: advance.simps)
  next
    case (Some x)
    obtain d a where x: "x = (d, a)"
      by (cases x)
    show ?thesis
    proof (cases "d \<le> t")
      case True
      have "Q (advance employer t
          (fire employer a (st\<lparr>clock := max (clock st) d, timers := remove1 (d, a) (timers st)\<rparr>)))"
        using "1.IH" [OF Some x [symmetric] True fire [OF init Some [unfolded x] True]] fire stop
        by blast
      then show ?thesis
        using Some x True by (simp add: advance.simps)
    next
      case False
      have "\<forall>y \<in> set (timers st). t < fst y"
        using earliest_least [OF Some] False x by fastforce
      with stop [OF init] Some x False show ?thesis
        by (simp add: advance.simps)
    qed
  qed
qed


lemma fire_weak:
  assumes "timers_weak s" and "earliest (timers s) = Some (d, a)"
  shows "timers_weak (fire employer a (s\<lparr>clock := max (clock s) d, timers := remove1 (d, a) (timers s)\<rparr>))"
    and "clock (fire employer a (s\<lparr>clock := max (clock s) d, timers := remove1 (d, a) (timers s)\<rparr>)) = d"
proof -
  have mem: "(d, a) \<in> set (timers s)"
    using assms(2) by (rule earliest_mem)
  have least: "\<forall>y \<in> set (timers s). d \<le> fst y"
    using earliest_least [OF assms(2)] by simp
  have cd: "max (clock s) d = d"
    using assms(1) mem by (auto simp: timers_weak_def list_all_iff)
  have sub: "set (remove1 (d, a) (timers s)) \<subseteq> set (timers s)"
    by (rule set_remove1_subset)
  show "timers_weak (fire employer a (s\<lparr>clock := max (clock s) d, timers := remove1 (d, a) (timers s)\<rparr>))"
    using assms(1) least sub cd
    by (cases a) (auto simp: timers_weak_def list_all_iff handlers Let_def)
  show "clock (fire employer a (s\<lparr>clock := max (clock s) d, timers := remove1 (d, a) (timers s)\<rparr>)) = d"
    using cd by (cases a) (auto simp: handlers Let_def)
qed

lemma fire_expiry:
  assumes w: "timers_weak s" and e: "expiry_inv T n s" and x: "earliest (timers s) = Some (d, a)"
  shows "expiry_inv T n (fire employer a (s\<lparr>clock := max (clock s) d, timers := remove1 (d, a) (timers s)\<rparr>))"
proof -
  have mem: "(d, a) \<in> set (timers s)"
    using x by (rule earliest_mem)
  have cd: "clock s \<le> d" and form: "timer_form (d, a)"
    using w mem by (auto simp: timers_weak_def list_all_iff)
  show ?thesis
  proof (cases a)
    case (RemoveNotification i)
    show ?thesis
    proof (cases "i = toString T")
      case True
      with form RemoveNotification have "d = T + 5000"
        by simp
      with e cd True RemoveNotification show ?thesis
        by (auto simp: expiry_inv_def list_all_iff handlers max_def)
    next
      case False
      with e cd RemoveNotification show ?thesis
        by (auto simp: expiry_inv_def list_all_iff handlers max_def)
    qed
  next
    case (ScanDone c)
    with e cd show ?thesis
      by (auto simp: expiry_inv_def list_all_iff handlers Let_def max_def)
  qed
qed

lemma advance_ok:
  assumes "timers_ok s" and "clock s \<le> t"
  shows "timers_ok (advance employer t s) \<and> clock (advance employer t s) = t"
proof (rule advance_rule_aux [where I = "\<lambda>s. timers_weak s \<and> clock s \<le> t"])
  show "timers_weak s \<and> clock s \<le> t"
    using assms by (auto simp: timers_ok_def timers_weak_def list_all_iff)
next
  fix s d a
  assume "timers_weak s \<and> clock s \<le> t" and "earliest (timers s) = Some (d, a)" and "d \<le> t"
  then show "timers_weak (fire employer a (s\<lparr>clock := max (clock s) d, timers := remove1 (d, a) (timers s)\<rparr>))
      \<and> clock (fire employer a (s\<lparr>clock := max (clock s) d, timers := remove1 (d, a) (timers s)\<rparr>)) \<le> t"
    using fire_weak [of s d a employer] by simp
next
  fix s
  assume "timers_weak s \<and> clock s \<le> t" and "\<forall>x \<in> set (timers s). t < fst x"
  then show "timers_ok (s\<lparr>clock := max (clock s) t\<rparr>) \<and> clock (s\<lparr>clock := max (clock s) t\<rparr>) = t"
    by (auto simp: timers_ok_def timers_weak_def list_all_iff)
qed

lemma advance_expiry:
  assumes "timers_ok s" and "expiry_inv T n s" and "clock s \<le> t"
  shows "expiry_inv T n (advance employer t s)"
proof (rule advance_rule_aux [where I = "\<lambda>s. timers_weak s \<and> expiry_inv T n s \<and> clock s \<le> t"])
  show "timers_weak s \<and> expiry_inv T n s \<and> clock s \<le> t"
    using assms by (auto simp: timers_ok_def timers_weak_def list_all_iff)
next
  fix s d a
  assume "timers_weak s \<and> expiry_inv T n s \<and> clock s \<le> t"
    and "earliest (timers s) = Some (d, a)" and "d \<le> t"
  then show "timers_weak (fire employer a (s\<lparr>clock := max (clock s) d, timers := remove1 (d, a) (timers s)\<rparr>))
      \<and> expiry_inv T n (fire employer a (s\<lparr>clock := max (clock s) d, timers := remove1 (d, a) (timers s)\<rparr>))
      \<and> clock (fire employer a (s\<lparr>clock := max (clock s) d, timers := remove1 (d, a) (timers s)\<rparr>)) \<le> t"
    using fire_weak [of s d a employer] fire_expiry [of s T n d a employer] by simp
next
  fix s
  assume "timers_weak s \<and> expiry_inv T n s \<and> clock s \<le> t" and "\<forall>x \<in> set (timers s). t < fst x"
  then show "expiry_inv T n (s\<lparr>clock := max (clock s) t\<rparr>)"
    by (auto simp: expiry_inv_def)
qed

lemma step_ok: "timers_ok s \<Longrightarrow> timers_ok (step user employer ev s)"
proof (cases ev)
  case (Wait ms)
  assume "timers_ok s"
  then show ?thesis
    using advance_ok [of s "clock s + ms" employer] Wait by (simp add: step_def)
qed (auto simp: timers_ok_def list_all_iff handlers Let_def)

lemma step_clock: "timers_ok s \<Longrightarrow> clock s \<le> clock (step user employer ev s)"
proof (cases ev)
  case (Wait ms)
  assume "timers_ok s"
  then show ?thesis
    using advance_ok [of s "clock s + ms" employer] Wait by (simp add: step_def)
qed (auto simp: handlers Let_def)

lemma step_expiry:
  assumes "timers_ok s" and "expiry_inv T n s" and "ev \<noteq> ClickToast (toString T)"
  shows "expiry_inv T n (step user employer ev s)"
proof (cases ev)
  case (Wait ms)
  with assms show ?thesis
    using advance_expiry [of s T n "clock s + ms" employer] by (simp add: step_def)
next
  case (ClickToast i)
  with assms show ?thesis
    by (auto simp: expiry_inv_def list_all_iff handlers)
qed (use assms in \<open>auto simp: expiry_inv_def list_all_iff handlers Let_def\<close>)

lemma run_ok: "timers_ok s \<Longrightarrow> timers_ok (run user employer evs s)"
  by (induction evs arbitrary: s) (auto simp: step_ok)

lemma run_expiry:
  "timers_ok s \<Longrightarrow> expiry_inv T n s \<Longrightarrow> ClickToast (toString T) \<notin> set evs \<Longrightarrow>
     expiry_inv T n (run user employer evs s)"
proof (induction evs arbitrary: s)
  case Nil
  then show ?case by simp
next
  case (Cons ev evs)
  then show ?case
    using step_ok [of s user employer ev] step_expiry [of s T n ev user employer] by auto
qed

lemma initial_ok: "timers_ok (initial now vs txs)"
  by (simp add: timers_ok_def initial_def)

text \<open>Every state that a session reaches has well-formed timers.\<close>

lemma reachable_ok: "timers_ok (run user employer evs (initial now vs txs))"
  by (rule run_ok) (rule initial_ok)

subsection \<open>Expiry of notifications\<close>

lemma addNotification_expiry:
  "expiry_inv (clock st)
     \<lparr>notif_id = toString (clock st), notif_type = ty, message = msg, timestamp = clock st,
      read = False\<rparr> (addNotification ty msg st)"
  by (simp add: expiry_inv_def addNotification_def Let_def)

lemma addNotification_ok: "timers_ok st \<Longrightarrow> timers_ok (addNotification ty msg st)"
  by (simp add: timers_ok_def addNotification_def Let_def)

lemma expiry_present:
  "timers_ok s \<Longrightarrow> expiry_inv T n s \<Longrightarrow> clock s < T + 5000 \<Longrightarrow> n \<in> set (notifications s)"
  by (auto simp: expiry_inv_def)

lemma expiry_absent:
  "timers_ok s \<Longrightarrow> expiry_inv T n s \<Longrightarrow> T + 5000 \<le> clock s \<Longrightarrow>
     list_all (\<lambda>m. notif_id m \<noteq> toString T) (notifications s)"
  by (auto simp: expiry_inv_def timers_ok_def list_all_iff)

text \<open>
  C8. A notification pushed at time \<open>T\<close> (in ms) has its removal scheduled for
  \<open>T + 5000\<close>. Whatever happens afterwards in the session, short of a click on a toast
  with its id, it is shown as long as the clock is before \<open>T + 5000\<close> and no notification
  with its id is shown once the clock has reached \<open>T + 5000\<close>; so it is shown at
  \<open>T + 4000\<close> and not at \<open>T + 6000\<close>.
\<close>

theorem notification_expiry:
  assumes ok: "timers_ok st" and undismissed: "ClickToast (toString (clock st)) \<notin> set evs"
  shows "(clock st + 5000, RemoveNotification (toString (clock st)))
           \<in> set (timers (addNotification ty msg st))
    \<and> (clock (run user employer evs (addNotification ty msg st)) < clock st + 5000 \<longrightarrow>
         \<lparr>notif_id = toString (clock st), notif_type = ty, message = msg, timestamp = clock st,
          read = False\<rparr> \<in> set (notifications (run user employer evs (addNotification ty msg st))))
    \<and> (clock st + 5000 \<le> clock (run user employer evs (addNotification ty msg st)) \<longrightarrow>
         list_all (\<lambda>m. notif_id m \<noteq> toString (clock st))
           (notifications (run user employer evs (addNotification ty msg st))))
    \<and> \<lparr>notif_id = toString (clock st), notif_type = ty, message = msg, timestamp = clock st,
          read = False\<rparr>
         \<in> set (notifications (advance employer (clock st + 4000) (addNotification ty msg st)))
    \<and> \<lparr>notif_id = toString (clock st), notif_type = ty, message = msg, timestamp = clock st,
          read = False\<rparr>
         \<notin> set (notifications (advance employer (clock st + 6000) (addNotification ty msg st)))"
proof -
  let ?n = "\<lparr>notif_id = toString (clock st), notif_type = ty, message = msg, timestamp = clock st,
          read = False\<rparr>"
  let ?p = "addNotification ty msg st"
  have pok: "timers_ok ?p"
    using ok by (rule addNotification_ok)
  have pinv: "expiry_inv (clock st) ?n ?p"
    by (rule addNotification_expiry)
  have pc: "clock ?p = clock st"
    by (simp add: addNotification_def Let_def)
  have rok: "timers_ok (run user employer evs ?p)"
    using pok by (rule run_ok)
  have rinv: "expiry_inv (clock st) ?n (run user employer evs ?p)"
    using pok pinv undismissed by (rule run_expiry)
  have a4: "expiry_inv (clock st) ?n (advance employer (clock st + 4000) ?p)"
    and a6: "expiry_inv (clock st) ?n (advance employer (clock st + 6000) ?p)"
    using advance_expiry [OF pok pinv, of "clock st + 4000" employer]
      advance_expiry [OF pok pinv, of "clock st + 6000" employer] pc by simp_all
  have c4: "timers_ok (advance employer (clock st + 4000) ?p)
      \<and> clock (advance employer (clock st + 4000) ?p) = clock st + 4000"
    using advance_ok [OF pok, of "clock st + 4000" employer] pc by simp
  have c6: "timers_ok (advance employer (clock st + 6000) ?p)
      \<and> clock (advance employer (clock st + 6000) ?p) = clock st + 6000"
    using advance_ok [OF pok, of "clock st + 6000" employer] pc by simp
  have "(clock st + 5000, RemoveNotification (toString (clock st))) \<in> set (timers ?p)"
    by (simp add: addNotification_def Let_def)
  moreover have "clock (run user employer evs ?p) < clock st + 5000 \<Longrightarrow>
      ?n \<in> set (notifications (run user employer evs ?p))"
    using rok rinv by (rule expiry_present)
  moreover have "clock st + 5000 \<le> clock (run user employer evs ?p) \<Longrightarrow>
      list_all (\<lambda>m. notif_id m \<noteq> toString (clock st)) (notifications (run user employer evs ?p))"
    using rok rinv by (rule expiry_absent)
  moreover have "?n \<in> set (notifications (advance employer (clock st + 4000) ?p))"
    using c4 a4 expiry_present [of "advance employer (clock st + 4000) ?p" "clock st" ?n] by simp
  moreover have "?n \<notin> set (notifications (advance employer (clock st + 6000) ?p))"
    using c6 a6 expiry_absent [of "advance employer (clock st + 6000) ?p" "clock st" ?n]
    by (auto simp: list_all_iff)
  ultimately show ?thesis
    by blast
qed

theorem notification_expiry_witness:
  "timers_ok (initial 0 [] [])
   \<and> ClickToast (toString (clock (initial 0 [] []))) \<notin> set [Wait 4000]
   \<and> ClickToast (toString (clock (initial 0 [] []))) \<notin> set [Wait 6000]
   \<and> clock (run None None [Wait 4000] (addNotification info (Literal ''Logged out successfully'') (initial 0 [] []))) = 4000
   \<and> map message (notifications (run None None [Wait 4000]
        (addNotification info (Literal ''Logged out successfully'') (initial 0 [] []))))
       = [Literal ''Logged out successfully'']
   \<and> clock (run None None [Wait 6000] (addNotification info (Literal ''Logged out successfully'') (initial 0 [] []))) = 6000
   \<and> notifications (run None None [Wait 6000]
        (addNotification info (Literal ''Logged out successfully'') (initial 0 [] []))) = []"
  using notification_expiry [of "initial 0 [] []" "[Wait 4000]" info "Literal ''Logged out successfully''" None None]
    notification_expiry [of "initial 0 [] []" "[Wait 6000]" info "Literal ''Logged out successfully''" None None]
  by (simp add: timers_ok_def initial_def handlers Let_def advance.simps)

subsection \<open>Step-up authentication\<close>
















text \<open>Cancelling closes the modal and changes nothing else.\<close>

lemma onCancel_frame:
  "\<not> showBiometric (onCancel st) \<and> amount (onCancel st) = amount st
   \<and> paymentMethod (onCancel st) = paymentMethod st
   \<and> notifications (onCancel st) = notifications st
   \<and> transactions (onCancel st) = transactions st
   \<and> timers (onCancel st) = timers st"
  by (simp add: onCancel_def setShowBiometric_def)

text \<open>
  C6. Cancelling leaves the amount and the payment method as they are and approves
  nothing at that moment. But a scan that was started before the cancellation is not
  called off: its timer still runs the success callback, so the cancelled attempt is
  approved 2000 ms after the scan began, and the amount field is cleared.
\<close>

theorem cancelled_scan_still_approves:
  "showBiometric (run (Some thabo) (Some techCorp)
      [SetAmount (Some (Num 500)), ClickSubmit, ClickScan] (initial 0 [] []))
   \<and> \<not> showBiometric (run (Some thabo) (Some techCorp)
      [SetAmount (Some (Num 500)), ClickSubmit, ClickScan, ClickCancel] (initial 0 [] []))
   \<and> amount (run (Some thabo) (Some techCorp)
      [SetAmount (Some (Num 500)), ClickSubmit, ClickScan, ClickCancel] (initial 0 [] [])) = Some (Num 500)
   \<and> notifications (run (Some thabo) (Some techCorp)
      [SetAmount (Some (Num 500)), ClickSubmit, ClickScan, ClickCancel] (initial 0 [] [])) = []
   \<and> map message (notifications (run (Some thabo) (Some techCorp)
      [SetAmount (Some (Num 500)), ClickSubmit, ClickScan, ClickCancel, Wait 2000] (initial 0 [] [])))
      = [AdvanceApproved (Num 500) (Num 30)]
   \<and> map notif_type (notifications (run (Some thabo) (Some techCorp)
      [SetAmount (Some (Num 500)), ClickSubmit, ClickScan, ClickCancel, Wait 2000] (initial 0 [] [])))
      = [success]
   \<and> amount (run (Some thabo) (Some techCorp)
      [SetAmount (Some (Num 500)), ClickSubmit, ClickScan, ClickCancel, Wait 2000] (initial 0 [] [])) = None"
  by (simp add: initial_def handlers Let_def advance.simps thabo_def techCorp_def calculateFee_def)

subsection \<open>Ids of notifications\<close>

text \<open>The id of a notification spells out the time of its creation.\<close>

lemma addNotification_id:
  "notifications (addNotification ty msg st) = notifications st @ [n] \<Longrightarrow>
     notif_id n = toString (clock st) \<and> decimal_value (notif_id n) = clock st \<and> timestamp n = clock st"
  by (auto simp: addNotification_def Let_def decimal_value_toString)

lemma addNotification_ids_differ:
  "clock s1 \<noteq> clock s2 \<Longrightarrow>
     notif_id (last (notifications (addNotification ty1 msg1 s1)))
       \<noteq> notif_id (last (notifications (addNotification ty2 msg2 s2)))"
  by (simp add: addNotification_def Let_def)

lemma run_clock: "timers_ok s \<Longrightarrow> clock s \<le> clock (run user employer evs s)"
proof (induction evs arbitrary: s)
  case Nil
  show ?case by simp
next
  case (Cons ev evs)
  from Cons.prems have "clock s \<le> clock (step user employer ev s)"
    by (rule step_clock)
  also have "\<dots> \<le> clock (run user employer evs (step user employer ev s))"
    using Cons.prems by (intro Cons.IH step_ok)
  finally show ?case
    by simp
qed

text \<open>
  C9. The id is the creation time in decimal digits, so a later notification never has
  a smaller id and notifications pushed at different times have different ids. Two
  notifications pushed within the same millisecond have the same id: bought at time 1000
  one after the other, two vouchers yield two different notifications with the id
  \<open>''1000''\<close>, and a click on either toast removes both.
\<close>

theorem same_millisecond_same_id:
  "map message (notifications (run None None [BuyNow soldOut, BuyNow lastOne] (initial 1000 [] [])))
     = [VoucherPurchased ''R50 Airtime'', VoucherPurchased ''1GB Data Bundle'']
   \<and> map notif_id (notifications (run None None [BuyNow soldOut, BuyNow lastOne] (initial 1000 [] [])))
     = [toString 1000, toString 1000]
   \<and> toString 1000 = ''1000''
   \<and> notifications (run None None [BuyNow soldOut, BuyNow lastOne, ClickToast ''1000''] (initial 1000 [] []))
     = []"
proof -
  have "toString 1000 = ''1000''"
    by code_simp
  then show ?thesis
    by (simp add: initial_def handlers Let_def soldOut_def lastOne_def)
qed

end
